theory Spec2Isabelle
  imports Main "HOL-Library.AList" "HOL-Library.Word"
begin

section \<open>Python values, exceptions and the process boundary\<close>

text \<open>
  The toolchain builder is Python. Every function below is the body of one source function,
  statement by statement. An exception is a value \<open>Inl e\<close> of the result, and everything
  after the raising expression is skipped, as in Python.
\<close>

datatype exn = TypeError | IndexError | ValueError | AttributeError | UnboundLocalError | OSError

text \<open>
  \<open>stdout\<close> and \<open>stderr\<close> of a result hold \<open>None\<close>, the empty list that \<open>Ret()\<close>
  and \<open>Ret(n)\<close> store, or text.
\<close>

datatype pyout = PyNone | EmptyList | Captured string

record CompletedProcess =
  args :: "string list"
  returncode :: int
  stdout :: pyout
  stderr :: pyout

text \<open>\<open>class Ret(subprocess.CompletedProcess)\<close> adds no field.\<close>

type_synonym Ret = CompletedProcess

definition SUCCESS :: int where
  "SUCCESS = 0"

definition FAILURE :: int where
  "FAILURE = 1"

text \<open>
  The shapes in which the sources call \<open>Ret(...)\<close>: no argument, one integer, one
  \<open>CompletedProcess\<close>, and keywords only
  (\<open>Ret(args=[...], returncode=..., stdout=..., stderr=...)\<close>).
\<close>

datatype ret_call =
    NoArgs
  | FromInt int
  | FromProcess CompletedProcess
  | FromKeywords "string list" int pyout pyout

text \<open>
  \<open>Ret.__init__(self, *args, **kwargs)\<close>, branch by branch.
  \<^item> \<open>if not args and not kwargs\<close>: the default result.
  \<^item> \<open>elif isinstance(args[0], int) and len(args) == 1 and not kwargs\<close>: with keywords
    only, \<open>args\<close> is the empty tuple and \<open>args[0]\<close> raises \<open>IndexError\<close>; with one integer
    the result carries it as its return code.
  \<^item> \<open>elif isinstance(args[0], subprocess.CompletedProcess)\<close>: the fields are copied, then
    \<open>super().__init__(self, *(args[1:]), **kwargs)\<close> passes \<open>self\<close> once more, as the
    parameter \<open>args\<close> of \<open>CompletedProcess.__init__(self, args, returncode, ...)\<close>, and
    nothing for \<open>returncode\<close>: \<open>TypeError\<close>.
\<close>

fun Ret_init :: "ret_call \<Rightarrow> exn + Ret" where
  "Ret_init NoArgs =
     Inr \<lparr>args = [], returncode = 0, stdout = EmptyList, stderr = EmptyList\<rparr>"
| "Ret_init (FromKeywords a rc out err) = Inl IndexError"
| "Ret_init (FromInt n) =
     Inr \<lparr>args = [], returncode = n, stdout = EmptyList, stderr = EmptyList\<rparr>"
| "Ret_init (FromProcess p) = Inl TypeError"

text \<open>
  \<open>Ret.__bool__\<close> of \<open>weaver/utils.py\<close>: \<open>return bool(self.returncode)\<close>, documented as
  "Return true if we contain an error."
\<close>

definition Ret_bool :: "Ret \<Rightarrow> bool" where
  "Ret_bool r = (returncode r \<noteq> 0)"

text \<open>
  \<open>Ret.__bool__\<close> of \<open>build-gnu-toolchain.py\<close>: the body is the expression statement
  \<open>bool(self.returncode)\<close> with no \<open>return\<close>, so the method returns \<open>None\<close> and every truth
  test of a result raises \<open>TypeError\<close>.
\<close>

definition Ret_bool_script :: "Ret \<Rightarrow> exn + bool" where
  "Ret_bool_script r = Inl TypeError"

definition Ret_truth :: "Ret \<Rightarrow> exn + bool" where
  "Ret_truth r = Inr (Ret_bool r)"

text \<open>
  Python's \<open>a and b\<close> and \<open>a or b\<close> on operands that act on a state: \<open>a\<close> is evaluated, its
  truth value is taken, and \<open>b\<close> is evaluated only if that value is true (\<open>and\<close>) or
  false (\<open>or\<close>); otherwise the value of \<open>a\<close> is the value of the expression.
\<close>

definition py_and ::
  "(Ret \<Rightarrow> exn + bool) \<Rightarrow> ('s \<Rightarrow> (exn + Ret) \<times> 's) \<Rightarrow> ('s \<Rightarrow> (exn + Ret) \<times> 's)
     \<Rightarrow> 's \<Rightarrow> (exn + Ret) \<times> 's" where
  "py_and truth a b s =
     (case a s of
        (Inl e, s1) \<Rightarrow> (Inl e, s1)
      | (Inr r, s1) \<Rightarrow>
          (case truth r of
             Inl e \<Rightarrow> (Inl e, s1)
           | Inr t \<Rightarrow> if t then b s1 else (Inr r, s1)))"

definition py_or ::
  "(Ret \<Rightarrow> exn + bool) \<Rightarrow> ('s \<Rightarrow> (exn + Ret) \<times> 's) \<Rightarrow> ('s \<Rightarrow> (exn + Ret) \<times> 's)
     \<Rightarrow> 's \<Rightarrow> (exn + Ret) \<times> 's" where
  "py_or truth a b s =
     (case a s of
        (Inl e, s1) \<Rightarrow> (Inl e, s1)
      | (Inr r, s1) \<Rightarrow>
          (case truth r of
             Inl e \<Rightarrow> (Inl e, s1)
           | Inr t \<Rightarrow> if t then (Inr r, s1) else b s1))"

subsection \<open>The world a run acts on\<close>

text \<open>
  The working directory, the directories that exist, the directory stack
  \<open>pushd.previous_paths\<close> (one list object, shared with \<open>popd\<close>), and the command line of
  every external process spawned so far, oldest first.
\<close>

record world =
  cwd :: string
  dirs :: "string list"
  previous_paths :: "string list"
  spawned :: "string list list"

text \<open>
  An external process is opaque: given its command line and the keyword names it was
  started with, it yields a \<open>CompletedProcess\<close> or an exception of its own, and a new world.
\<close>

type_synonym os = "string list \<Rightarrow> string list \<Rightarrow> world \<Rightarrow> (exn + CompletedProcess) \<times> world"

text \<open>An argument in a program-argument position: a string, or a list handed over whole.\<close>

datatype pyarg = S string | L "string list"

fun is_str :: "pyarg \<Rightarrow> bool" where
  "is_str (S s) = True"
| "is_str (L xs) = False"

fun str_of :: "pyarg \<Rightarrow> string" where
  "str_of (S s) = s"
| "str_of (L xs) = concat xs"

text \<open>
  The keyword parameters of Python's \<open>subprocess.run\<close> and \<open>subprocess.Popen\<close>; any other
  keyword is rejected with \<open>TypeError\<close> when the call is bound.
\<close>

definition subprocess_keywords :: "string list" where
  "subprocess_keywords =
     [''input'', ''capture_output'', ''timeout'', ''check'', ''bufsize'', ''executable'',
      ''stdin'', ''stdout'', ''stderr'', ''preexec_fn'', ''close_fds'', ''shell'', ''cwd'',
      ''env'', ''universal_newlines'', ''startupinfo'', ''creationflags'',
      ''restore_signals'', ''start_new_session'', ''pass_fds'', ''user'', ''group'',
      ''extra_groups'', ''encoding'', ''errors'', ''text'', ''umask'', ''pipesize'',
      ''process_group'']"

text \<open>
  \<open>subprocess.run(argv, **kwargs)\<close>: an unknown keyword or an element of \<open>argv\<close> that is not
  a string raises \<open>TypeError\<close> before any process exists; otherwise the process is
  spawned and recorded.
\<close>

definition subprocess_run ::
  "os \<Rightarrow> pyarg list \<Rightarrow> string list \<Rightarrow> world \<Rightarrow> (exn + CompletedProcess) \<times> world" where
  "subprocess_run ex argv kwargs w =
     (if \<not> list_all (\<lambda>k. k \<in> set subprocess_keywords) kwargs then (Inl TypeError, w)
      else if \<not> list_all is_str argv then (Inl TypeError, w)
      else ex (map str_of argv) kwargs (w\<lparr>spawned := spawned w @ [map str_of argv]\<rparr>))"

section \<open>weaver/utils.py\<close>

text \<open>\<open>def run(cmd, *args, **kwargs): return Ret(subprocess.run([cmd, *args], **kwargs))\<close>\<close>

definition run ::
  "os \<Rightarrow> pyarg \<Rightarrow> pyarg list \<Rightarrow> string list \<Rightarrow> world \<Rightarrow> (exn + Ret) \<times> world" where
  "run ex cmd rest kwargs w =
     (case subprocess_run ex (cmd # rest) kwargs w of
        (Inl e, w1) \<Rightarrow> (Inl e, w1)
      | (Inr p, w1) \<Rightarrow> (Ret_init (FromProcess p), w1))"

text \<open>
  \<open>cd(path)\<close>: \<open>os.chdir\<close>, then a result built from keywords; \<open>FileNotFoundError\<close> (errno 2)
  is caught and answered with a result built from keywords as well.
\<close>

definition ENOENT :: int where
  "ENOENT = 2"

definition cd :: "string \<Rightarrow> world \<Rightarrow> (exn + Ret) \<times> world" where
  "cd path w =
     (if path \<in> set (dirs w)
      then (Ret_init (FromKeywords [path] SUCCESS PyNone PyNone), w\<lparr>cwd := path\<rparr>)
      else (Ret_init (FromKeywords [path] ENOENT PyNone
              (Captured ''No such file or directory'')), w))"

text \<open>\<open>pushd(path)\<close>: \<open>pushd.previous_paths.append(os.getcwd()); return cd(path)\<close>\<close>

definition pushd :: "string \<Rightarrow> world \<Rightarrow> (exn + Ret) \<times> world" where
  "pushd path w = cd path (w\<lparr>previous_paths := previous_paths w @ [cwd w]\<rparr>)"

text \<open>
  \<open>popd()\<close>: with a non-empty stack, \<open>cd(popd.previous_paths.pop())\<close> (\<open>pop\<close> takes the last
  element); with an empty one,
  \<open>Ret(args=["popd"], returncode=FAILURE, stdout=None, stderr="directory stack empty.")\<close>.
\<close>

definition popd :: "world \<Rightarrow> (exn + Ret) \<times> world" where
  "popd w =
     (if previous_paths w \<noteq> []
      then cd (last (previous_paths w)) (w\<lparr>previous_paths := butlast (previous_paths w)\<rparr>)
      else (Ret_init (FromKeywords [''popd''] FAILURE PyNone
              (Captured ''directory stack empty.'')), w))"

definition mkdir :: "os \<Rightarrow> string \<Rightarrow> world \<Rightarrow> (exn + Ret) \<times> world" where
  "mkdir ex path w = run ex (S ''mkdir'') [S ''-p'', S path] [] w"

definition path_exists :: "os \<Rightarrow> string \<Rightarrow> world \<Rightarrow> (exn + Ret) \<times> world" where
  "path_exists ex path w = run ex (S ''/usr/bin/test'') [S ''-d'', S path] [] w"

text \<open>Decimal text of an integer, as an f-string renders it.\<close>

fun show_nat :: "nat \<Rightarrow> string" where
  "show_nat n =
     (if n < 10 then [''0123456789'' ! n]
      else show_nat (n div 10) @ [''0123456789'' ! (n mod 10)])"

declare show_nat.simps [simp del]

definition show_int :: "int \<Rightarrow> string" where
  "show_int i = (if i < 0 then ''-'' @ show_nat (nat (- i)) else show_nat (nat i))"

text \<open>
  The keyword-only parameters of \<open>flock\<close>, all \<open>None\<close> by default. A flag is \<open>True\<close> when
  the caller passed a true value under that name.
\<close>

record flock_kw =
  conflict_exit_code :: "int option"
  no_fork :: bool
  exclusive :: bool
  nonblock :: bool
  close :: bool
  shared :: bool
  unlock :: bool
  wait :: "int option"

definition no_options :: flock_kw where
  "no_options = \<lparr>conflict_exit_code = None, no_fork = False, exclusive = False,
     nonblock = False, close = False, shared = False, unlock = False, wait = None\<rparr>"

text \<open>The list \<open>options\<close> that \<open>flock\<close> builds, one \<open>if\<close> after the other.\<close>

definition flock_options :: "'a flock_kw_scheme \<Rightarrow> string list" where
  "flock_options k =
     (case conflict_exit_code k of None \<Rightarrow> [] | Some c \<Rightarrow> [''-E '' @ show_int c])
     @ (if no_fork k then [''-n''] else [])
     @ (if exclusive k then [''-x''] else [])
     @ (if nonblock k then [''-n''] else [])
     @ (if close k then [''-o''] else [])
     @ (if shared k then [''-s''] else [])
     @ (if unlock k then [''-u''] else [])
     @ (case wait k of
          None \<Rightarrow> []
        | Some t \<Rightarrow> if t \<noteq> 0 then [''--timeout '' @ show_int t] else [])"

text \<open>
  \<open>flock(path, cmd=[], /, *, ..., **kwargs)\<close> ends in
  \<open>return run("flock", *options, f"{path}", *cmd, **kwargs)\<close>. \<open>extra\<close> are the names of the
  keywords that match no parameter of \<open>flock\<close> and so land in its \<open>**kwargs\<close>.
\<close>

definition flock ::
  "os \<Rightarrow> string \<Rightarrow> string list \<Rightarrow> flock_kw \<Rightarrow> string list \<Rightarrow> world \<Rightarrow> (exn + Ret) \<times> world" where
  "flock ex path cmd k extra w =
     run ex (S ''flock'') (map S (flock_options k) @ [S path] @ map S cmd) extra w"

text \<open>
  \<open>def flock_try(path, cmd, /, **kwargs):
       return flock(path, cmd, kwargs=kwargs | {"nonblock": True}, **kwargs)\<close>

  The caller's keywords are forwarded as they are: those that name a parameter of \<open>flock\<close>
  are \<open>k\<close>, the others \<open>extra\<close>. The dictionary with \<open>"nonblock": True\<close> is passed under
  the keyword \<open>kwargs\<close>, which is no parameter of \<open>flock\<close>: it lands in \<open>**kwargs\<close>
  of \<open>flock\<close> beside \<open>extra\<close>, and the parameter \<open>nonblock\<close> keeps what the caller gave.
\<close>

definition flock_try ::
  "os \<Rightarrow> string \<Rightarrow> string list \<Rightarrow> flock_kw \<Rightarrow> string list \<Rightarrow> world \<Rightarrow> (exn + Ret) \<times> world" where
  "flock_try ex path cmd k extra w = flock ex path cmd k (''kwargs'' # extra) w"

text \<open>The results \<open>Ret(SUCCESS)\<close> and \<open>Ret(FAILURE)\<close>.\<close>

definition Ret_SUCCESS :: Ret where
  "Ret_SUCCESS = \<lparr>args = [], returncode = 0, stdout = EmptyList, stderr = EmptyList\<rparr>"

definition Ret_FAILURE :: Ret where
  "Ret_FAILURE = \<lparr>args = [], returncode = 1, stdout = EmptyList, stderr = EmptyList\<rparr>"

section \<open>build-gnu-toolchain.py: classes and their default configuration\<close>

text \<open>
  Every class of the script has one base: \<open>MakeProject\<close> has \<open>object\<close>, the others a
  subclass of \<open>MakeProject\<close>. A class is its name and its base.
\<close>

datatype cls = Object | Class string cls

fun class_names :: "cls \<Rightarrow> string list" where
  "class_names Object = []"
| "class_names (Class n b) = n # class_names b"

text \<open>
  The class attributes \<open>_default_config\<close>: for each class name the list object that the
  class body binds, if the class has one of its own. The lists are mutable and live as
  long as the classes.
\<close>

type_synonym cattrs = "string \<Rightarrow> string list option"

text \<open>
  \<open>getattr(cls, "_default_config", [])\<close> finds the attribute on the class or on the nearest
  ancestor that has it: the name of the class that owns the list found, or \<open>None\<close> when
  the default \<open>[]\<close> is taken.
\<close>

fun getattr_owner :: "cattrs \<Rightarrow> cls \<Rightarrow> string option" where
  "getattr_owner cs Object = None"
| "getattr_owner cs (Class n b) = (if cs n \<noteq> None then Some n else getattr_owner cs b)"

text \<open>
  \<^verbatim>\<open>
  @classmethod
  def default_config(cls):
    ret = getattr(cls, "_default_config", [])
    for c in cls.__bases__:
      ret += getattr(c, "default_config", lambda: [])()
    return ret
  \<close>
  \<open>ret\<close> is the list object itself, and \<open>+=\<close> on a list extends it in place: the list
  stored in the owning class grows by what the base returns, and that list is returned.
  For the base \<open>object\<close>, which has no \<open>default_config\<close>, the \<open>lambda\<close> answers \<open>[]\<close>.
\<close>

fun default_config :: "cls \<Rightarrow> cattrs \<Rightarrow> string list \<times> cattrs" where
  "default_config Object cs = ([], cs)"
| "default_config (Class n b) cs =
     (case default_config b cs of
        (inh, cs1) \<Rightarrow>
          (case getattr_owner cs (Class n b) of
             None \<Rightarrow> ([] @ inh, cs1)
           | Some ow \<Rightarrow> (the (cs1 ow) @ inh, cs1(ow := Some (the (cs1 ow) @ inh)))))"

text \<open>The classes of the script that the claims name, and the lists their bodies bind.\<close>

definition MakeProject_cls :: cls where
  "MakeProject_cls = Class ''MakeProject'' Object"

definition ToolchainSupportLib_cls :: cls where
  "ToolchainSupportLib_cls = Class ''ToolchainSupportLib'' MakeProject_cls"

definition LibGMP_cls :: cls where
  "LibGMP_cls = Class ''LibGMP'' ToolchainSupportLib_cls"

definition KernelHeaders_cls :: cls where
  "KernelHeaders_cls = Class ''KernelHeaders'' MakeProject_cls"

definition script_default_config :: cattrs where
  "script_default_config =
     map_of [(''MakeProject'', []),
             (''ToolchainSupportLib'', [''--disable-static'', ''--prefix={prefix}'']),
             (''LibGMP'', [''--enable-cxx'']),
             (''LibMPFR'', [''--with-gmp={prefix}'']),
             (''LibMPC'', [''--with-gmp={prefix}'', ''--with-mpfr={prefix}'']),
             (''LibISL'', [''--with-gmp-prefix={prefix}''])]"

subsection \<open>The default environment\<close>

text \<open>
  A value that \<open>default_config_env\<close> handles: a dictionary, in insertion order, or the
  empty list that its two defaults \<open>[]\<close> and \<open>lambda: []\<close> supply.
\<close>

datatype envval = EnvDict "(string \<times> string) list" | EnvList

type_synonym eattrs = "string \<Rightarrow> (string \<times> string) list option"

text \<open>
  \<open>a | b\<close>: for two dictionaries a new dictionary, the items of \<open>a\<close> updated with those of
  \<open>b\<close>; a list on either side raises \<open>TypeError\<close>.
\<close>

fun py_bar :: "envval \<Rightarrow> envval \<Rightarrow> exn + envval" where
  "py_bar (EnvDict a) (EnvDict b) = Inr (EnvDict (fold (\<lambda>(k, v). AList.update k v) b a))"
| "py_bar a b = Inl TypeError"

fun getattr_env :: "eattrs \<Rightarrow> cls \<Rightarrow> envval" where
  "getattr_env es Object = EnvList"
| "getattr_env es (Class n b) =
     (case es n of Some d \<Rightarrow> EnvDict d | None \<Rightarrow> getattr_env es b)"

text \<open>
  \<^verbatim>\<open>
  @classmethod
  def default_config_env(cls):
    ret = getattr(cls, "_default_config_env", [])
    for c in cls.__bases__:
      # use | ret to allow subclasses to override defaults
      ret = getattr(c, "default_config_env", lambda: [])() | ret
    return ret
  \<close>
\<close>

fun default_config_env :: "cls \<Rightarrow> eattrs \<Rightarrow> exn + envval" where
  "default_config_env Object es = Inr EnvList"
| "default_config_env (Class n b) es =
     (case default_config_env b es of
        Inl e \<Rightarrow> Inl e
      | Inr inh \<Rightarrow> py_bar inh (getattr_env es (Class n b)))"

definition script_default_config_env :: eattrs where
  "script_default_config_env =
     map_of [(''MakeProject'', []),
             (''ToolchainSupportLib'',
                [(''LDFLAGS'', ''-Wl,-rpath,${prefix}/lib''), (''CC'', ''{cc}''),
                 (''CXX'', ''{cxx}''), (''LD'', ''{linker}'')])]"

section \<open>build-gnu-toolchain.py: projects\<close>

text \<open>
  An instance of \<open>MakeProject\<close>: its class, and the attributes that \<open>__init__\<close> sets from
  its parameters of the same names. \<open>attributes\<close> are the further entries of
  \<open>self.__dict__\<close>: those a subclass constructor sets (\<open>prefix\<close>, \<open>version\<close>, ...) and
  the \<open>**kwargs\<close>.
\<close>

record project =
  p_cls :: cls
  source_dir :: string
  build_dir :: string
  cpus :: int
  config :: "string list"
  config_env :: "(string \<times> string) list"
  make_targets :: "string list"
  make_env :: "(string \<times> string) list"
  make_args :: "string list"
  install_targets :: "string list"
  install_env :: "(string \<times> string) list"
  install_args :: "string list"
  attributes :: "(string \<times> string) list"

text \<open>
  \<^verbatim>\<open>
  @classmethod
  def _handle_conflicts(cls, configure_args):
    pass
  \<close>
  The method is the same in \<open>build-gnu-toolchain.py\<close> and in
  \<open>weaver/build-gnu-toolchain.py\<close>. The first argument is what the class declares in
  \<open>_config_conflicts\<close>: for an option, the options it conflicts with.
\<close>

definition handle_conflicts :: "(string \<times> string list) list \<Rightarrow> string list \<Rightarrow> exn + unit" where
  "handle_conflicts config_conflicts configure_args = Inr ()"


text \<open>
  \<open>MakeProject.__init__\<close> of \<open>weaver/build-gnu-toolchain.py\<close>:
  \<^verbatim>\<open>
        type(self)._handle_conflicts(config)
        super().__init__(self, **kwargs)
        self.source_dir = source_dir
        ...
  \<close>
  No class after \<open>MakeProject\<close> in the method resolution order defines \<open>__init__\<close>, so
  the second statement is \<open>object.__init__\<close> with \<open>self\<close> as a further argument, which
  raises \<open>TypeError\<close>. The assignments are not reached.
\<close>

definition MakeProject_init_weaver ::
  "(string \<times> string list) list \<Rightarrow> project \<Rightarrow> exn + project" where
  "MakeProject_init_weaver config_conflicts a =
     (case handle_conflicts config_conflicts (config a) of
        Inl e \<Rightarrow> Inl e
      | Inr u \<Rightarrow> Inl TypeError)"

text \<open>
  There \<open>MakeProject\<close> derives from the abstract classes \<open>Project\<close> and \<open>Repo\<close> and
  overrides \<open>configure\<close>, \<open>build\<close> and \<open>install\<close> only. The abstract methods it leaves
  open, which no subclass of it defines either:
\<close>

definition MakeProject_abstractmethods :: "string list" where
  "MakeProject_abstractmethods =
     [''test'', ''test_dependencies'', ''test_reverse_dependencies'', ''_get_dependencies'',
      ''_get_reverse_dependencies'', ''_get_available_options'', ''_get_current_config'',
      ''initial_fetch'', ''update'', ''fetch_version'', ''_list_versions'', ''_get_name'']"

text \<open>
  Creating an instance there: a class with abstract methods left open cannot be
  instantiated (\<open>TypeError\<close>, before \<open>__init__\<close> runs); otherwise \<open>__init__\<close> runs.
\<close>

definition MakeProject_new_weaver ::
  "string list \<Rightarrow> (string \<times> string list) list \<Rightarrow> project \<Rightarrow> exn + project" where
  "MakeProject_new_weaver abstractmethods config_conflicts a =
     (if abstractmethods \<noteq> [] then Inl TypeError
      else MakeProject_init_weaver config_conflicts a)"

text \<open>The hooks \<open>pre_config\<close> and \<open>post_config\<close>: \<open>return Ret(SUCCESS)\<close>.\<close>

definition pre_config :: "world \<Rightarrow> (exn + Ret) \<times> world" where
  "pre_config w = (Ret_init (FromInt SUCCESS), w)"

definition post_config :: "world \<Rightarrow> (exn + Ret) \<times> world" where
  "post_config w = (Ret_init (FromInt SUCCESS), w)"

text \<open>\<open>a and b and ... \<close>: the operands from left to right.\<close>

fun and_chain ::
  "(Ret \<Rightarrow> exn + bool) \<Rightarrow> ('s \<Rightarrow> (exn + Ret) \<times> 's) \<Rightarrow> ('s \<Rightarrow> (exn + Ret) \<times> 's) list
     \<Rightarrow> 's \<Rightarrow> (exn + Ret) \<times> 's" where
  "and_chain truth a [] = a"
| "and_chain truth a (b # bs) = py_and truth a (and_chain truth b bs)"

text \<open>
  The \<open>return\<close> expression of \<open>MakeProject.configure\<close>:
  \<^verbatim>\<open>
    return (run(["mkdir", "-p", f"{self.build_dir}"])
            and run(["cd", f"{self.build_dir}"])
            and self.pre_config()
            and run(configure_cmd + configure_args, env=configure_env)
            and self.post_config())
  \<close>
  Each \<open>run\<close> here receives one list as its \<open>cmd\<close>.
\<close>

definition configure_steps ::
  "os \<Rightarrow> project \<Rightarrow> string list \<Rightarrow> string list \<Rightarrow> world \<Rightarrow> (exn + Ret) \<times> world" where
  "configure_steps ex p configure_cmd configure_args =
     and_chain Ret_bool_script
       (run ex (L [''mkdir'', ''-p'', build_dir p]) [] [])
       [run ex (L [''cd'', build_dir p]) [] [],
        pre_config,
        run ex (L (configure_cmd @ configure_args)) [] [''env''],
        post_config]"

text \<open>
  \<open>[cfg.format(**self.__dict__) for cfg in ...]\<close>: \<open>str.format\<close> is Python's own, a
  parameter \<open>fmt\<close> here; it may raise. The comprehension stops at the first exception.
\<close>

fun format_all :: "(string \<Rightarrow> project \<Rightarrow> exn + string) \<Rightarrow> project \<Rightarrow> string list \<Rightarrow> exn + string list" where
  "format_all fmt p [] = Inr []"
| "format_all fmt p (t # ts) =
     (case fmt t p of
        Inl e \<Rightarrow> Inl e
      | Inr x \<Rightarrow> (case format_all fmt p ts of Inl e \<Rightarrow> Inl e | Inr xs \<Rightarrow> Inr (x # xs)))"

text \<open>
  \<open>MakeProject.configure\<close> of the script:
  \<^verbatim>\<open>
    configure_cmd = [ str(self.source_dir / "configure") ]
    configure_args = [cfg.format(**self.__dict__)
                      for cfg in (self.default_config() + self.config)]
    configure_env = {k : v.format(**self.__dict__)
                     for k, v in (self.default_config_env() | configure_env)}
    return (...)
  \<close>
  In the third statement \<open>configure_env\<close> is read while it is being defined: if
  \<open>default_config_env()\<close> returns, the read of the unbound local raises
  \<open>UnboundLocalError\<close>. The \<open>return\<close> is reached on no path.
\<close>

definition configure ::
  "(string \<Rightarrow> project \<Rightarrow> exn + string) \<Rightarrow> os \<Rightarrow> project \<Rightarrow> cattrs \<Rightarrow> eattrs \<Rightarrow> world
     \<Rightarrow> (exn + Ret) \<times> cattrs \<times> world" where
  "configure fmt ex p cs es w =
     (case default_config (p_cls p) cs of
        (dc, cs1) \<Rightarrow>
          (case format_all fmt p (dc @ config p) of
             Inl e \<Rightarrow> (Inl e, cs1, w)
           | Inr configure_args \<Rightarrow>
               (case default_config_env (p_cls p) es of
                  Inl e \<Rightarrow> (Inl e, cs1, w)
                | Inr d \<Rightarrow> (Inl UnboundLocalError, cs1, w))))"

section \<open>build-gnu-toolchain.py: the build identity\<close>

text \<open>
  What \<open>sha256().update\<close> may be given: \<open>str(arg)\<close> is text, and the hash object accepts
  bytes only ("Strings must be encoded before hashing").
\<close>

datatype pydata = Text string | Bytes "8 word list"

fun sha256_update :: "8 word list \<Rightarrow> pydata \<Rightarrow> exn + 8 word list" where
  "sha256_update h (Bytes b) = Inr (h @ b)"
| "sha256_update h (Text s) = Inl TypeError"

text \<open>
  \<^verbatim>\<open>
  def hash_build_config(*argv):
    from hashlib import sha256
    h = sha256()
    for arg in argv:
      h.update(str(arg))
    return h.digest()
  \<close>
  \<open>sha\<close> is SHA-256 itself, from the bytes fed to the digest. The arguments are given by
  their text \<open>str(arg)\<close>.
\<close>

fun hash_loop :: "8 word list \<Rightarrow> string list \<Rightarrow> exn + 8 word list" where
  "hash_loop h [] = Inr h"
| "hash_loop h (arg # argv) =
     (case sha256_update h (Text arg) of
        Inl e \<Rightarrow> Inl e
      | Inr h1 \<Rightarrow> hash_loop h1 argv)"

definition hash_build_config :: "(8 word list \<Rightarrow> 'd) \<Rightarrow> string list \<Rightarrow> exn + 'd" where
  "hash_build_config sha argv =
     (case hash_loop [] argv of
        Inl e \<Rightarrow> Inl e
      | Inr h \<Rightarrow> Inr (sha h))"

section \<open>The source repository cache\<close>

definition SOURCE_DIR :: string where
  "SOURCE_DIR = ''/source''"

text \<open>\<open>a / b\<close> on paths: \<open>b\<close> below \<open>a\<close>, or \<open>b\<close> alone when it is absolute.\<close>

definition path_join :: "string \<Rightarrow> string \<Rightarrow> string" where
  "path_join a b = (if b \<noteq> [] \<and> hd b = CHR ''/'' then b else a @ ''/'' @ b)"

text \<open>\<open>url.split('/')[-1].removesuffix(".git")\<close>\<close>

definition last_segment :: "string \<Rightarrow> string" where
  "last_segment s = rev (takeWhile (\<lambda>c. c \<noteq> CHR ''/'') (rev s))"

definition removesuffix :: "string \<Rightarrow> string \<Rightarrow> string" where
  "removesuffix suf s =
     (if suf \<noteq> [] \<and> length suf \<le> length s \<and> drop (length s - length suf) s = suf
      then take (length s - length suf) s else s)"

text \<open>
  \<open>[f"--{k.replace('_', '-')}={v}" for k, v in kwargs]\<close>: iterating the dictionary \<open>kwargs\<close>
  yields its keys, and each key, a string, is unpacked into \<open>k, v\<close>: a key of two
  characters gives one character each, any other key raises \<open>ValueError\<close>.
\<close>

fun flag_of_key :: "string \<Rightarrow> exn + string" where
  "flag_of_key [k, v] = Inr (''--'' @ [if k = CHR ''_'' then CHR ''-'' else k] @ ''='' @ [v])"
| "flag_of_key key = Inl ValueError"

fun flags_of_keys :: "string list \<Rightarrow> exn + string list" where
  "flags_of_keys [] = Inr []"
| "flags_of_keys (key # keys) =
     (case flag_of_key key of
        Inl e \<Rightarrow> Inl e
      | Inr f \<Rightarrow> (case flags_of_keys keys of Inl e \<Rightarrow> Inl e | Inr fs \<Rightarrow> Inr (f # fs)))"

subsection \<open>build-gnu-toolchain.py: \<open>flock\<close>, \<open>flock_try\<close> and \<open>GitRepo\<close>\<close>

text \<open>
  The script has its own \<open>run\<close>, \<open>flock\<close> and \<open>flock_try\<close>. Its \<open>run\<close> is that of
  \<open>weaver/utils.py\<close>, word for word; its \<open>flock\<close> has the two further parameters
  \<open>verbose\<close> and \<open>version\<close>; its \<open>flock_try\<close> forwards its keywords in the same way.
\<close>

record flock_kw_script = flock_kw +
  verbose :: bool
  version :: bool

definition no_options_script :: flock_kw_script where
  "no_options_script = \<lparr>conflict_exit_code = None, no_fork = False, exclusive = False,
     nonblock = False, close = False, shared = False, unlock = False, wait = None,
     verbose = False, version = False\<rparr>"

definition flock_script ::
  "os \<Rightarrow> string \<Rightarrow> string list \<Rightarrow> flock_kw_script \<Rightarrow> string list \<Rightarrow> world
     \<Rightarrow> (exn + Ret) \<times> world" where
  "flock_script ex path cmd k extra w =
     run ex (S ''flock'')
       (map S (flock_options k
                 @ (if verbose k then [''--verbose''] else [])
                 @ (if version k then [''-V''] else []))
        @ [S path] @ map S cmd) extra w"

definition flock_try_script ::
  "os \<Rightarrow> string \<Rightarrow> string list \<Rightarrow> flock_kw_script \<Rightarrow> string list \<Rightarrow> world
     \<Rightarrow> (exn + Ret) \<times> world" where
  "flock_try_script ex path cmd k extra w = flock_script ex path cmd k (''kwargs'' # extra) w"

text \<open>An instance of the script's \<open>GitRepo\<close>; \<open>bare_path\<close> is \<open>SOURCE_DIR / (name + ".git")\<close>.\<close>

record GitRepo =
  name :: string
  remote_url :: string

text \<open>
  \<^verbatim>\<open>
  def clone(self, *args, output=None, **kwargs) -> Ret:
    output = (self.remote_url.split('/')[-1].removesuffix(".git")
              if output is None else output)
    cmd = ["git", *args, *[f"--{k.replace('_', '-')}={v}" for k, v in kwargs],
           f"{self.remote_url}", f"{output}"]
    return flock_try(output, cmd, exlusive=True)
  \<close>
  \<open>kwargs\<close> are the names of the further keywords. The keyword \<open>exlusive\<close> names no
  parameter of \<open>flock\<close>. Nothing in \<open>clone\<close> looks at the directory \<open>output\<close>.
\<close>

definition clone ::
  "os \<Rightarrow> GitRepo \<Rightarrow> string list \<Rightarrow> string option \<Rightarrow> string list \<Rightarrow> world
     \<Rightarrow> (exn + Ret) \<times> world" where
  "clone ex r rest output kwargs w =
     (let out = (case output of
                   None \<Rightarrow> removesuffix ''.git'' (last_segment (remote_url r))
                 | Some p \<Rightarrow> p)
      in case flags_of_keys kwargs of
           Inl e \<Rightarrow> (Inl e, w)
         | Inr flags \<Rightarrow>
             flock_try_script ex out ([''git''] @ rest @ flags @ [remote_url r, out])
               no_options_script [''exlusive''] w)"

text \<open>
  \<open>shallow_clone(self, *args, branch="main", output=None, depth=1)\<close> calls
  \<open>self.clone("--single-branch", *args, branch=branch, output=output, depth=depth)\<close> with
  \<open>output\<close> defaulting to \<open>SOURCE_DIR / self.name / branch\<close>.
\<close>

definition shallow_clone ::
  "os \<Rightarrow> GitRepo \<Rightarrow> string list \<Rightarrow> string \<Rightarrow> string option \<Rightarrow> world \<Rightarrow> (exn + Ret) \<times> world" where
  "shallow_clone ex r rest branch output w =
     (let out = (case output of
                   None \<Rightarrow> path_join (path_join SOURCE_DIR (name r)) branch
                 | Some p \<Rightarrow> p)
      in clone ex r (''--single-branch'' # rest) (Some out) [''branch'', ''depth''] w)"

definition clone_bare :: "os \<Rightarrow> GitRepo \<Rightarrow> world \<Rightarrow> (exn + Ret) \<times> world" where
  "clone_bare ex r w =
     clone ex r [''--bare''] (Some (path_join SOURCE_DIR (name r @ ''.git''))) [] w"

text \<open>
  \<^verbatim>\<open>
  def update_bare(self):
    output = SOURCE_DIR / (self.name + ".git")
    # check if directory exists
    # if not, acquire a lock, then clone the bare repo
    # then run: git fetch <remote_url>
    return ((run (["/usr/bin/test", "-d", f"{output}"])
            or self.clone_bare())
          and run(["git", "fetch", f"{self.remote_url}"]))
  \<close>
\<close>

definition update_bare :: "os \<Rightarrow> GitRepo \<Rightarrow> world \<Rightarrow> (exn + Ret) \<times> world" where
  "update_bare ex r =
     py_and Ret_bool_script
       (py_or Ret_bool_script
          (run ex (L [''/usr/bin/test'', ''-d'', path_join SOURCE_DIR (name r @ ''.git'')]) [] [])
          (clone_bare ex r))
       (run ex (L [''git'', ''fetch'', remote_url r]) [] [])"

subsection \<open>weaver/build-gnu-toolchain.py: \<open>GitRepo\<close>\<close>

text \<open>
  Here the repository operations are class methods, and \<open>name\<close>, \<open>bare_path\<close> and
  \<open>remote_url\<close> are properties. Read through the class, as \<open>cls.name\<close> is in a class
  method, a property is the property object itself and not the string it would compute
  for an instance.
\<close>

datatype pyattr = StrValue string | PropertyObject

record GitRepo_class =
  cls_name :: string
  cls_remote_url :: string

definition read_name :: "GitRepo_class \<Rightarrow> pyattr" where
  "read_name c = PropertyObject"

definition read_remote_url :: "GitRepo_class \<Rightarrow> pyattr" where
  "read_remote_url c = PropertyObject"

text \<open>
  \<open>x + ".git"\<close>, \<open>path / x\<close>, \<open>x.split(...)\<close> and \<open>f"{x}"\<close> on such a value: the first two
  raise \<open>TypeError\<close> and the third \<open>AttributeError\<close> on a property object; the last gives
  its \<open>repr\<close>.
\<close>

fun py_plus :: "pyattr \<Rightarrow> string \<Rightarrow> exn + string" where
  "py_plus (StrValue s) t = Inr (s @ t)"
| "py_plus PropertyObject t = Inl TypeError"

fun py_truediv :: "string \<Rightarrow> pyattr \<Rightarrow> exn + string" where
  "py_truediv a (StrValue s) = Inr (path_join a s)"
| "py_truediv a PropertyObject = Inl TypeError"

fun py_last_segment :: "pyattr \<Rightarrow> exn + string" where
  "py_last_segment (StrValue s) = Inr (removesuffix ''.git'' (last_segment s))"
| "py_last_segment PropertyObject = Inl AttributeError"

fun py_format :: "pyattr \<Rightarrow> string" where
  "py_format (StrValue s) = s"
| "py_format PropertyObject = ''<property object>''"

text \<open>
  \<^verbatim>\<open>
  @classmethod
  def clone(cls, *args, output: pathlib.PurePath = None, **kwargs) -> Ret:
      output = (cls.remote_url.split('/')[-1].removesuffix(".git")
                if output is None else output)
      cmd = ["git", *args, *[f"--{k.replace('_', '-')}={v}" for k, v in kwargs],
             f"{cls.remote_url}", f"{output}"]
      return mkdir(output) and flock_try(output, cmd, exlusive=True)
  \<close>
\<close>

definition clone_cls ::
  "os \<Rightarrow> GitRepo_class \<Rightarrow> string list \<Rightarrow> string option \<Rightarrow> string list \<Rightarrow> world
     \<Rightarrow> (exn + Ret) \<times> world" where
  "clone_cls ex c rest output kwargs w =
     (case (case output of None \<Rightarrow> py_last_segment (read_remote_url c) | Some p \<Rightarrow> Inr p) of
        Inl e \<Rightarrow> (Inl e, w)
      | Inr out \<Rightarrow>
          (case flags_of_keys kwargs of
             Inl e \<Rightarrow> (Inl e, w)
           | Inr flags \<Rightarrow>
               py_and Ret_truth (mkdir ex out)
                 (flock_try ex out
                    ([''git''] @ rest @ flags @ [py_format (read_remote_url c), out])
                    no_options [''exlusive'']) w))"

text \<open>
  \<open>shallow_clone\<close>, \<open>fetch_version\<close> and \<open>initial_fetch\<close>:
  \<^verbatim>\<open>
      output = SOURCE_DIR / cls.name / branch if output is None else output
      return cls.clone("--single-branch", *args, branch=branch, output=output, depth=depth)

      return cls.shallow_clone(branch=version)

      output = SOURCE_DIR / (cls.name + ".git")
      return cls.clone("--bare", output=output)
  \<close>
\<close>

definition shallow_clone_cls ::
  "os \<Rightarrow> GitRepo_class \<Rightarrow> string list \<Rightarrow> string \<Rightarrow> string option \<Rightarrow> world
     \<Rightarrow> (exn + Ret) \<times> world" where
  "shallow_clone_cls ex c rest branch output w =
     (case (case output of
              None \<Rightarrow> (case py_truediv SOURCE_DIR (read_name c) of
                          Inl e \<Rightarrow> Inl e
                        | Inr d \<Rightarrow> Inr (path_join d branch))
            | Some p \<Rightarrow> Inr p) of
        Inl e \<Rightarrow> (Inl e, w)
      | Inr out \<Rightarrow>
          clone_cls ex c (''--single-branch'' # rest) (Some out) [''branch'', ''depth''] w)"

definition fetch_version :: "os \<Rightarrow> GitRepo_class \<Rightarrow> string \<Rightarrow> world \<Rightarrow> (exn + Ret) \<times> world" where
  "fetch_version ex c v w = shallow_clone_cls ex c [] v None w"

definition initial_fetch :: "os \<Rightarrow> GitRepo_class \<Rightarrow> world \<Rightarrow> (exn + Ret) \<times> world" where
  "initial_fetch ex c w =
     (case py_plus (read_name c) ''.git'' of
        Inl e \<Rightarrow> (Inl e, w)
      | Inr n \<Rightarrow> clone_cls ex c [''--bare''] (Some (path_join SOURCE_DIR n)) [] w)"

text \<open>
  \<^verbatim>\<open>
  @classmethod
  def update(cls):
      output = SOURCE_DIR / (cls.name + ".git")
      # check if directory exists
      # if not, then clone the bare repo
      # finally run: git fetch <remote_url>
      return ((run(["/usr/bin/test", "-d", f"{output}"])
               or cls.initial_fetch()) and pushd(output)
              and flock(output, ["git", "fetch", f"{cls.remote_url}"],
                        exlusive=True) and popd())
  \<close>
\<close>

definition update :: "os \<Rightarrow> GitRepo_class \<Rightarrow> world \<Rightarrow> (exn + Ret) \<times> world" where
  "update ex c w =
     (case py_plus (read_name c) ''.git'' of
        Inl e \<Rightarrow> (Inl e, w)
      | Inr n \<Rightarrow>
          and_chain Ret_truth
            (py_or Ret_truth
               (run ex (L [''/usr/bin/test'', ''-d'', path_join SOURCE_DIR n]) [] [])
               (initial_fetch ex c))
            [pushd (path_join SOURCE_DIR n),
             flock ex (path_join SOURCE_DIR n)
               [''git'', ''fetch'', py_format (read_remote_url c)] no_options [''exlusive''],
             popd] w)"

section \<open>Execution results\<close>

lemma Ret_init_SUCCESS: "Ret_init (FromInt SUCCESS) = Inr Ret_SUCCESS"
  by (simp add: SUCCESS_def Ret_SUCCESS_def)

lemma Ret_init_FAILURE: "Ret_init (FromInt FAILURE) = Inr Ret_FAILURE"
  by (simp add: FAILURE_def Ret_FAILURE_def)

text \<open>
  C1, as stated: a result is true exactly when its return code is zero. The result
  \<open>Ret(SUCCESS)\<close> that every default hook returns has return code 0 and is false.
\<close>

theorem Ret_bool_success_counterexample:
  "\<not> (Ret_bool Ret_SUCCESS \<longleftrightarrow> returncode Ret_SUCCESS = 0)"
  by (simp add: Ret_bool_def Ret_SUCCESS_def)

text \<open>
  C1, amended: in \<open>weaver/utils.py\<close> a result is true exactly when its return code is not
  zero, that is when it holds an error. So a result with return code 0 is the value that
  stops an \<open>and\<close> chain, which then yields that result without evaluating the right operand,
  and a result with a non-zero return code is the value that lets the chain go on to the
  right operand.
\<close>

theorem Ret_bool_true_on_error:
  "(Ret_bool r \<longleftrightarrow> returncode r \<noteq> 0)
   \<and> (a s = (Inr r, s1) \<longrightarrow> returncode r = 0 \<longrightarrow> py_and Ret_truth a b s = (Inr r, s1))
   \<and> (a s = (Inr r, s1) \<longrightarrow> returncode r \<noteq> 0 \<longrightarrow> py_and Ret_truth a b s = b s1)"
  by (simp add: Ret_bool_def Ret_truth_def py_and_def)

theorem Ret_bool_true_on_error_witness:
  "\<not> Ret_bool Ret_SUCCESS \<and> Ret_bool Ret_FAILURE
   \<and> py_and Ret_truth (\<lambda>s. (Inr Ret_SUCCESS, s)) (\<lambda>s. (Inr Ret_FAILURE, s)) (0::nat)
       = (Inr Ret_SUCCESS, 0)
   \<and> py_and Ret_truth (\<lambda>s. (Inr Ret_FAILURE, Suc s)) (\<lambda>s. (Inr Ret_SUCCESS, Suc s)) (0::nat)
       = (Inr Ret_SUCCESS, 2)"
  using Ret_bool_true_on_error [of Ret_SUCCESS "\<lambda>s. (Inr Ret_SUCCESS, s)" "0::nat" 0
          "\<lambda>s. (Inr Ret_FAILURE, s)"]
        Ret_bool_true_on_error [of Ret_FAILURE "\<lambda>s. (Inr Ret_FAILURE, Suc s)" "0::nat" 1
          "\<lambda>s. (Inr Ret_SUCCESS, Suc s)"]
  by (simp add: Ret_SUCCESS_def Ret_FAILURE_def)

section \<open>Locked resource access\<close>

lemma kwargs_not_a_keyword: "''kwargs'' \<notin> set subprocess_keywords"
  by (simp add: subprocess_keywords_def)

text \<open>
  C8: \<open>flock_try\<close> at any path, command and keywords. The keyword \<open>kwargs\<close> reaches
  \<open>subprocess.run\<close>, which rejects it: the call raises \<open>TypeError\<close>, no \<open>flock\<close> process is
  spawned and the world is as before. No result is returned, neither a success nor a
  failure.
\<close>

theorem flock_try_raises:
  "flock_try ex path cmd k extra w = (Inl TypeError, w)"
  by (simp add: flock_try_def flock_def run_def subprocess_run_def kwargs_not_a_keyword)

text \<open>
  The options that \<open>flock_try\<close> hands on are the caller's: without \<open>nonblock\<close> or \<open>no_fork\<close>
  from the caller, \<open>-n\<close> is not among them.
\<close>

lemma flock_try_options_no_nonblock:
  "flock_options no_options = []"
  by (simp add: flock_options_def no_options_def)

section \<open>The directory stack\<close>

text \<open>
  C10: \<open>popd()\<close> on an empty directory stack. The state is unchanged, but the result is
  built from keywords only, so \<open>Ret.__init__\<close> raises \<open>IndexError\<close> at \<open>args[0]\<close>: an
  exception leaves \<open>popd\<close>, not a result with return code 1.
\<close>

theorem popd_empty_stack_raises:
  "popd (w\<lparr>previous_paths := []\<rparr>) = (Inl IndexError, w\<lparr>previous_paths := []\<rparr>)"
  by (simp add: popd_def)

section \<open>Default configuration arguments\<close>

lemma getattr_owner_some:
  "getattr_owner cs c = Some ow \<Longrightarrow> cs ow \<noteq> None \<and> ow \<in> set (class_names c)"
  by (induction c) (auto split: if_splits)

lemma getattr_owner_dom:
  "(\<And>m. (cs m = None) = (cs2 m = None)) \<Longrightarrow> getattr_owner cs c = getattr_owner cs2 c"
  by (induction c) auto

lemma default_config_dom:
  "(snd (default_config c cs) m = None) = (cs m = None)"
proof (induction c arbitrary: cs m)
  case Object
  show ?case by simp
next
  case (Class n b)
  obtain inh cs1 where b: "default_config b cs = (inh, cs1)"
    by (cases "default_config b cs")
  have d: "\<And>k. (cs1 k = None) = (cs k = None)"
    using Class.IH [of cs] b by simp
  show ?case
  proof (cases "getattr_owner cs (Class n b)")
    case None
    then show ?thesis using b d by simp
  next
    case (Some ow)
    then have "cs ow \<noteq> None" using getattr_owner_some by blast
    then show ?thesis using Some b d by auto
  qed
qed

lemma default_config_frame:
  "m \<notin> set (class_names c) \<Longrightarrow> snd (default_config c cs) m = cs m"
proof (induction c arbitrary: cs)
  case Object
  show ?case by simp
next
  case (Class n b)
  obtain inh cs1 where b: "default_config b cs = (inh, cs1)"
    by (cases "default_config b cs")
  have f: "cs1 m = cs m"
    using Class.IH [of cs] Class.prems b by simp
  show ?case
  proof (cases "getattr_owner cs (Class n b)")
    case None
    then show ?thesis using b f by simp
  next
    case (Some ow)
    then have "ow \<in> set (class_names (Class n b))" using getattr_owner_some by blast
    then have "ow \<noteq> m" using Class.prems by auto
    then show ?thesis using Some b f by simp
  qed
qed

text \<open>The stored lists only grow, and longer stored lists give longer results.\<close>

lemma default_config_mono:
  assumes "\<And>m. rel_option (\<lambda>xs ys. length xs \<le> length ys) (cs m) (cs2 m)"
  shows "length (fst (default_config c cs)) \<le> length (fst (default_config c cs2))
         \<and> (\<forall>m. rel_option (\<lambda>xs ys. length xs \<le> length ys)
                (snd (default_config c cs) m) (snd (default_config c cs2) m))"
  using assms
proof (induction c arbitrary: cs cs2)
  case Object
  then show ?case by simp
next
  case (Class n b)
  obtain inh s1 where b1: "default_config b cs = (inh, s1)"
    by (cases "default_config b cs")
  obtain inh2 s2 where b2: "default_config b cs2 = (inh2, s2)"
    by (cases "default_config b cs2")
  have ih: "length inh \<le> length inh2"
    and ihs: "\<And>m. rel_option (\<lambda>xs ys. length xs \<le> length ys) (s1 m) (s2 m)"
    using Class.IH [of cs cs2] Class.prems b1 b2 by auto
  have dom: "\<And>m. (cs m = None) = (cs2 m = None)"
  proof -
    fix m
    show "(cs m = None) = (cs2 m = None)"
      using Class.prems [of m] by (cases "cs m"; cases "cs2 m") auto
  qed
  have ow: "getattr_owner cs (Class n b) = getattr_owner cs2 (Class n b)"
    using getattr_owner_dom [of cs cs2 "Class n b"] dom by blast
  show ?case
  proof (cases "getattr_owner cs (Class n b)")
    case None
    then show ?thesis using ow b1 b2 ih ihs by simp
  next
    case (Some k)
    have "cs k \<noteq> None" using Some getattr_owner_some by blast
    then have "s1 k \<noteq> None"
      using default_config_dom [of b cs k] b1 by simp
    then obtain x where x: "s1 k = Some x" by blast
    then obtain y where y: "s2 k = Some y" and xy: "length x \<le> length y"
      using ihs [of k] by (cases "s2 k") auto
    show ?thesis
      using Some ow b1 b2 ih ihs x y xy by (simp del: getattr_owner.simps)
  qed
qed

lemma default_config_grows:
  "rel_option (\<lambda>xs ys. length xs \<le> length ys) (cs m) (snd (default_config c cs) m)"
proof (induction c arbitrary: cs m)
  case Object
  show ?case by (cases "cs m") auto
next
  case (Class n b)
  obtain inh s1 where b1: "default_config b cs = (inh, s1)"
    by (cases "default_config b cs")
  have ih: "\<And>k. rel_option (\<lambda>xs ys. length xs \<le> length ys) (cs k) (s1 k)"
    using Class.IH [of cs] b1 by simp
  show ?case
  proof (cases "getattr_owner cs (Class n b)")
    case None
    then show ?thesis using b1 ih by simp
  next
    case (Some k)
    have "cs k \<noteq> None" using Some getattr_owner_some by blast
    then obtain x where x: "cs k = Some x" by blast
    then obtain y where y: "s1 k = Some y" and xy: "length x \<le> length y"
      using ih [of k] by (cases "s1 k") auto
    show ?thesis
      using Some b1 ih [of m] x y xy by (cases "m = k") (simp_all del: getattr_owner.simps)
  qed
qed

lemma default_config_own:
  assumes "cs n = Some own" and "n \<notin> set (class_names b)"
  shows "default_config (Class n b) cs =
           (own @ fst (default_config b cs),
            (snd (default_config b cs))(n := Some (own @ fst (default_config b cs))))"
proof -
  obtain inh s1 where b1: "default_config b cs = (inh, s1)"
    by (cases "default_config b cs")
  have "s1 n = Some own"
    using default_config_frame [of n b cs] assms b1 by simp
  then show ?thesis using assms b1 by simp
qed

text \<open>
  C9: a class that binds its own \<open>_default_config\<close>, under a base whose \<open>default_config()\<close>
  returns a non-empty list. A call returns the class's list followed by the inherited
  entries and leaves exactly that list stored in the class; the next call starts from
  the grown list, so it returns a strictly longer list, and the two resolutions differ.
\<close>

theorem default_config_stateful:
  assumes "cs n = Some own"
    and "n \<notin> set (class_names b)"
    and "fst (default_config b cs) \<noteq> []"
  shows "fst (default_config (Class n b) cs) = own @ fst (default_config b cs)
         \<and> snd (default_config (Class n b) cs) n = Some (own @ fst (default_config b cs))
         \<and> length (fst (default_config (Class n b) cs))
             < length (fst (default_config (Class n b) (snd (default_config (Class n b) cs))))
         \<and> fst (default_config (Class n b) (snd (default_config (Class n b) cs)))
             \<noteq> fst (default_config (Class n b) cs)"
proof -
  define inh where "inh = fst (default_config b cs)"
  define s1 where "s1 = snd (default_config b cs)"
  define cs1 where "cs1 = s1(n := Some (own @ inh))"
  have first: "default_config (Class n b) cs = (own @ inh, cs1)"
    using default_config_own [of cs n own b] assms(1) assms(2)
    by (simp add: inh_def s1_def cs1_def)
  have own1: "cs1 n = Some (own @ inh)" by (simp add: cs1_def)
  have second: "default_config (Class n b) cs1
                  = ((own @ inh) @ fst (default_config b cs1),
                     (snd (default_config b cs1))
                       (n := Some ((own @ inh) @ fst (default_config b cs1))))"
    using default_config_own [of cs1 n "own @ inh" b] own1 assms(2) by simp
  have le: "\<And>m. rel_option (\<lambda>xs ys. length xs \<le> length ys) (cs m) (cs1 m)"
  proof -
    fix m
    have g: "rel_option (\<lambda>xs ys. length xs \<le> length ys) (cs m) (s1 m)"
      using default_config_grows [of cs m b] by (simp add: s1_def)
    show "rel_option (\<lambda>xs ys. length xs \<le> length ys) (cs m) (cs1 m)"
      using g assms(1) by (cases "m = n") (simp_all add: cs1_def)
  qed
  have "length inh \<le> length (fst (default_config b cs1))"
    using default_config_mono [of cs cs1 b] le by (simp add: inh_def)
  moreover have "inh \<noteq> []" using assms(3) by (simp add: inh_def)
  ultimately have pos: "0 < length (fst (default_config b cs1))" by (cases inh) auto
  have len: "length (own @ inh) < length ((own @ inh) @ fst (default_config b cs1))"
    using pos by simp
  then have ne: "(own @ inh) @ fst (default_config b cs1) \<noteq> own @ inh" by auto
  have r1: "fst (default_config (Class n b) cs) = own @ inh"
    and st1: "snd (default_config (Class n b) cs) = cs1"
    using first by (simp_all del: default_config.simps)
  have r2: "fst (default_config (Class n b) cs1) = (own @ inh) @ fst (default_config b cs1)"
    using second by (simp del: default_config.simps)
  show ?thesis
    unfolding st1 r1 r2 using own1 len ne by (simp add: inh_def)
qed

text \<open>
  The example of C9, \<open>LibGMP\<close> under \<open>ToolchainSupportLib\<close>, from the lists as the class
  bodies bind them: the first call returns three entries, the second five.
\<close>

lemma LibGMP_default_config_first:
  "fst (default_config LibGMP_cls script_default_config)
     = [''--enable-cxx'', ''--disable-static'', ''--prefix={prefix}'']"
  by (simp add: LibGMP_cls_def ToolchainSupportLib_cls_def MakeProject_cls_def
        script_default_config_def)

lemma LibGMP_default_config_second:
  "fst (default_config LibGMP_cls (snd (default_config LibGMP_cls script_default_config)))
     = [''--enable-cxx'', ''--disable-static'', ''--prefix={prefix}'',
        ''--disable-static'', ''--prefix={prefix}'']"
  by (simp add: LibGMP_cls_def ToolchainSupportLib_cls_def MakeProject_cls_def
        script_default_config_def)

theorem default_config_stateful_witness:
  "script_default_config ''LibGMP'' = Some [''--enable-cxx'']
   \<and> ''LibGMP'' \<notin> set (class_names ToolchainSupportLib_cls)
   \<and> fst (default_config ToolchainSupportLib_cls script_default_config) \<noteq> []
   \<and> snd (default_config LibGMP_cls script_default_config) ''LibGMP''
       = Some [''--enable-cxx'', ''--disable-static'', ''--prefix={prefix}'']
   \<and> length (fst (default_config LibGMP_cls script_default_config))
       < length (fst (default_config LibGMP_cls
                   (snd (default_config LibGMP_cls script_default_config))))"
proof -
  have h1: "script_default_config ''LibGMP'' = Some [''--enable-cxx'']"
    by (simp add: script_default_config_def)
  have h2: "''LibGMP'' \<notin> set (class_names ToolchainSupportLib_cls)"
    by (simp add: ToolchainSupportLib_cls_def MakeProject_cls_def)
  have h3: "fst (default_config ToolchainSupportLib_cls script_default_config) \<noteq> []"
    by (simp add: ToolchainSupportLib_cls_def MakeProject_cls_def script_default_config_def)
  have v: "fst (default_config ToolchainSupportLib_cls script_default_config)
             = [''--disable-static'', ''--prefix={prefix}'']"
    by (simp add: ToolchainSupportLib_cls_def MakeProject_cls_def script_default_config_def)
  note t = default_config_stateful [of script_default_config "''LibGMP''" "[''--enable-cxx'']"
             ToolchainSupportLib_cls, OF h1 h2 h3, folded LibGMP_cls_def]
  have a: "snd (default_config LibGMP_cls script_default_config) ''LibGMP''
             = Some ([''--enable-cxx'']
                 @ fst (default_config ToolchainSupportLib_cls script_default_config))"
    using t by blast
  have b: "length (fst (default_config LibGMP_cls script_default_config))
             < length (fst (default_config LibGMP_cls
                        (snd (default_config LibGMP_cls script_default_config))))"
    using t by blast
  have a': "snd (default_config LibGMP_cls script_default_config) ''LibGMP''
              = Some [''--enable-cxx'', ''--disable-static'', ''--prefix={prefix}'']"
    using a unfolding v by simp
  show ?thesis using h1 h2 h3 a' b by blast
qed

text \<open>
  A class whose own list and whose ancestors' own lists are all bound, each class once in
  the chain: the first half of C7. The list resolved is the class's stored list followed
  by the stored list of each ancestor, nearest first.
\<close>

lemma default_config_concat:
  assumes "distinct (class_names c)" and "\<And>m. m \<in> set (class_names c) \<Longrightarrow> cs m \<noteq> None"
  shows "fst (default_config c cs) = concat (map (\<lambda>m. the (cs m)) (class_names c))"
  using assms
proof (induction c)
  case Object
  show ?case by simp
next
  case (Class n b)
  obtain own where own: "cs n = Some own"
    using Class.prems(2) [of n] by auto
  have nb: "n \<notin> set (class_names b)" using Class.prems(1) by simp
  have ih: "fst (default_config b cs) = concat (map (\<lambda>m. the (cs m)) (class_names b))"
    using Class.IH Class.prems by simp
  show ?case
    using default_config_own [of cs n own b] own nb ih by (simp del: default_config.simps)
qed

section \<open>Default configuration environment\<close>

lemma default_config_env_TypeError:
  "default_config_env (Class n b) es = Inl TypeError"
proof (induction b arbitrary: n)
  case Object
  show ?case by (cases "getattr_env es (Class n Object)") simp_all
next
  case (Class m c)
  show ?case using Class.IH [of m] by simp
qed

text \<open>
  C7: \<open>default_config_env()\<close> of \<open>LibGMP\<close>, and of every class. At \<open>MakeProject\<close> the base
  is \<open>object\<close>, for which \<open>lambda: []\<close> answers a list, and \<open>[] | ret\<close> with the dictionary
  \<open>ret\<close> raises \<open>TypeError\<close>; every subclass reaches that call through its bases. No
  merged mapping is returned for any class.
\<close>

theorem default_config_env_raises:
  "default_config_env LibGMP_cls script_default_config_env = Inl TypeError
   \<and> default_config_env (Class n b) es = Inl TypeError"
  unfolding LibGMP_cls_def by (simp only: default_config_env_TypeError)

text \<open>What \<open>|\<close> does on two dictionaries: the right operand wins on a common key.\<close>

lemma py_bar_right_wins:
  "py_bar (EnvDict [(''CC'', ''gcc''), (''LD'', ''ld'')]) (EnvDict [(''CC'', ''{cc}'')])
     = Inr (EnvDict [(''CC'', ''{cc}''), (''LD'', ''ld'')])"
  by simp

section \<open>Conflict handling\<close>



text \<open>
  In \<open>weaver/build-gnu-toolchain.py\<close> no project comes to exist: every class under
  \<open>MakeProject\<close> is abstract, and \<open>__init__\<close> itself raises after the handler has
  returned. Neither exception is a conflict error.
\<close>

lemma MakeProject_init_weaver_raises:
  "MakeProject_init_weaver config_conflicts a = Inl TypeError"
  by (simp add: MakeProject_init_weaver_def handle_conflicts_def)

lemma MakeProject_new_weaver_raises:
  "MakeProject_new_weaver MakeProject_abstractmethods config_conflicts a = Inl TypeError"
  by (simp add: MakeProject_new_weaver_def MakeProject_abstractmethods_def)

section \<open>The configure stage\<close>

lemma run_list_raises:
  "run ex (L xs) rest kwargs w = (Inl TypeError, w)"
  by (simp add: run_def subprocess_run_def)

text \<open>
  With the truth value of \<open>weaver/utils.py\<close>, a chain goes on past a step that failed and
  stops at the first step that succeeded, whose result it yields.
\<close>

lemma and_chain_past_failure:
  "a s = (Inr r, s1) \<Longrightarrow> returncode r \<noteq> 0
     \<Longrightarrow> and_chain Ret_truth a (b # bs) s = and_chain Ret_truth b bs s1"
  by (simp add: py_and_def Ret_truth_def Ret_bool_def)

lemma and_chain_stops_at_success:
  "a s = (Inr r, s1) \<Longrightarrow> returncode r = 0
     \<Longrightarrow> and_chain Ret_truth a (b # bs) s = (Inr r, s1)"
  by (simp add: py_and_def Ret_truth_def Ret_bool_def)

lemma and_chain_script_raises:
  "a s = (Inr r, s1) \<Longrightarrow> and_chain Ret_bool_script a (b # bs) s = (Inl TypeError, s1)"
  by (simp add: py_and_def Ret_bool_script_def)

lemma configure_raises_aux:
  "\<exists>e cs1. configure fmt ex p cs es w = (Inl e, cs1, w)"
proof -
  obtain dc cs1 where d: "default_config (p_cls p) cs = (dc, cs1)"
    by (cases "default_config (p_cls p) cs")
  show ?thesis
    by (cases "format_all fmt p (dc @ config p)"; cases "default_config_env (p_cls p) es")
       (simp_all add: configure_def d)
qed

text \<open>
  C2: \<open>MakeProject.configure\<close> of the script, for every project, and its \<open>return\<close>
  expression, for every command and argument list. \<open>configure\<close> raises while it
  computes its arguments and environment: no step of the chain is invoked, no process
  is spawned and no result is returned. The chain itself raises \<open>TypeError\<close> in its
  first step, \<open>run(["mkdir", "-p", ...])\<close>, before any process: it returns the result
  of no step.
\<close>

theorem configure_raises:
  "isl (fst (configure fmt ex p cs es w))
   \<and> snd (snd (configure fmt ex p cs es w)) = w
   \<and> configure_steps ex p configure_cmd configure_args w = (Inl TypeError, w)"
proof -
  obtain e cs1 where c: "configure fmt ex p cs es w = (Inl e, cs1, w)"
    using configure_raises_aux by blast
  have "configure_steps ex p configure_cmd configure_args w = (Inl TypeError, w)"
    by (simp add: configure_steps_def py_and_def run_list_raises)
  then show ?thesis using c by simp
qed

section \<open>The build identity\<close>

text \<open>
  C3: \<open>hash_build_config\<close> on the resolved fields of two configurations that differ in
  the architecture. The first \<open>h.update(str(arg))\<close> passes text to the hash object and
  raises \<open>TypeError\<close>: no hash is computed for either, and so none from which a prefix
  could be derived.
\<close>

theorem hash_build_config_raises:
  "hash_build_config sha [''x86_64'', ''6.2.1'', ''2.40'', ''12.2.0''] = Inl TypeError
   \<and> hash_build_config sha [''aarch64'', ''6.2.1'', ''2.40'', ''12.2.0''] = Inl TypeError"
  by (simp add: hash_build_config_def)

lemma hash_build_config_nonempty:
  "hash_build_config sha (arg # argv) = Inl TypeError"
  by (simp add: hash_build_config_def)

lemma hash_build_config_empty:
  "hash_build_config sha [] = Inr (sha [])"
  by (simp add: hash_build_config_def)

section \<open>The source repository cache\<close>

lemma flock_try_script_raises:
  "flock_try_script ex path cmd k extra w = (Inl TypeError, w)"
  by (simp add: flock_try_script_def flock_script_def run_def subprocess_run_def
        kwargs_not_a_keyword)

lemma clone_bare_raises: "clone_bare ex r w = (Inl TypeError, w)"
  by (simp add: clone_bare_def clone_def flock_try_script_raises)

lemma shallow_clone_raises: "shallow_clone ex r rest branch output w = (Inl ValueError, w)"
  by (simp add: shallow_clone_def clone_def Let_def)

lemma initial_fetch_raises: "initial_fetch ex c w = (Inl TypeError, w)"
  by (simp add: initial_fetch_def read_name_def)

lemma fetch_version_raises: "fetch_version ex c v w = (Inl TypeError, w)"
  by (simp add: fetch_version_def shallow_clone_cls_def read_name_def)

text \<open>
  C4: \<open>update\<close> of \<open>weaver/build-gnu-toolchain.py\<close> and \<open>update_bare\<close> of the script, for
  every repository and every world, whether the mirror directory exists or not. Both
  raise \<open>TypeError\<close> before any process is spawned: \<open>update\<close> at \<open>cls.name + ".git"\<close>,
  \<open>update_bare\<close> in \<open>run(["/usr/bin/test", "-d", ...])\<close>, which is given a list as the
  program. Nothing is fetched and nothing is cloned.
\<close>

theorem update_raises:
  "update ex c w = (Inl TypeError, w) \<and> update_bare ex r w = (Inl TypeError, w)"
  by (simp add: update_def read_name_def update_bare_def py_and_def py_or_def run_list_raises)

text \<open>
  C5: creating the bare mirror and fetching a version, in a world where the mirror
  \<open>/source/gmp.git\<close> and the checkout \<open>/source/gmp/6.2.1\<close> exist. No operation tests for
  the directory, and each raises instead of returning a success: \<open>clone_bare\<close> in
  \<open>flock_try\<close>, \<open>shallow_clone\<close> while it unpacks the keyword \<open>branch\<close>, \<open>initial_fetch\<close> at
  \<open>cls.name + ".git"\<close> and \<open>fetch_version\<close> at \<open>SOURCE_DIR / cls.name\<close>.
\<close>

theorem refetch_raises:
  "clone_bare ex \<lparr>name = ''gmp'', remote_url = ''https://gmplib.org/repo/gmp.git''\<rparr>
     \<lparr>cwd = ''/'', dirs = [''/source/gmp.git'', ''/source/gmp/6.2.1''],
      previous_paths = [], spawned = []\<rparr>
     = (Inl TypeError,
        \<lparr>cwd = ''/'', dirs = [''/source/gmp.git'', ''/source/gmp/6.2.1''],
         previous_paths = [], spawned = []\<rparr>)
   \<and> fst (shallow_clone ex \<lparr>name = ''gmp'', remote_url = ''https://gmplib.org/repo/gmp.git''\<rparr>
           [] ''6.2.1'' None
           \<lparr>cwd = ''/'', dirs = [''/source/gmp.git'', ''/source/gmp/6.2.1''],
            previous_paths = [], spawned = []\<rparr>) = Inl ValueError
   \<and> fst (initial_fetch ex
           \<lparr>cls_name = ''gmp'', cls_remote_url = ''https://gmplib.org/repo/gmp.git''\<rparr>
           \<lparr>cwd = ''/'', dirs = [''/source/gmp.git'', ''/source/gmp/6.2.1''],
            previous_paths = [], spawned = []\<rparr>) = Inl TypeError
   \<and> fst (fetch_version ex
           \<lparr>cls_name = ''gmp'', cls_remote_url = ''https://gmplib.org/repo/gmp.git''\<rparr>
           ''6.2.1''
           \<lparr>cwd = ''/'', dirs = [''/source/gmp.git'', ''/source/gmp/6.2.1''],
            previous_paths = [], spawned = []\<rparr>) = Inl TypeError"
  by (simp add: clone_bare_raises shallow_clone_raises initial_fetch_raises
        fetch_version_raises)

end
